theory Spec2Isabelle
  imports Complex_Main "HOL-Library.Sublist"
begin

section \<open>Safety net analysis: the analyzer of \<^verbatim>\<open>src/utils/safetyNetAnalyzer.js\<close>\<close>

text \<open>
  The class \<^verbatim>\<open>SafetyNetAnalyzer\<close> is embedded with explicit state passing. JavaScript
  numbers are modelled as real numbers: \<^verbatim>\<open>Math.atan\<close>, \<^verbatim>\<open>Math.sin\<close>, \<^verbatim>\<open>Math.cos\<close>,
  \<^verbatim>\<open>Math.sqrt\<close>, \<^verbatim>\<open>Math.abs\<close>, \<^verbatim>\<open>Math.min\<close>, \<^verbatim>\<open>Math.max\<close> are the real functions
  and \<^verbatim>\<open>x**n\<close> is the power. Where the doubles of the source behave differently on a
  validated configuration in a way that changes the sign or the finiteness of a result,
  the behaviour is written out:
  \<^item> the sentinel \<^verbatim>\<open>Infinity\<close> of the safety factor;
  \<^item> the division by \<open>k1 = 0\<close> in the fallback of the deflection solver;
  \<^item> the underflow of the two squares in the strain formula (a square below the
    smallest normal double is rounded to a multiple of \<^verbatim>\<open>2^-1074\<close>, to zero when it is
    small enough).
  Rounding in the normal range, overflow, NaN and the sign of a zero are outside the
  model: every field of a configuration is a real number, and the real \<open>0\<close> stands for
  the double \<open>+0\<close>.
\<close>

subsection \<open>Configuration, results, analyzer object\<close>

record material =
  name :: string
  elastic_modulus :: real
  yield_strength :: real
  density :: real
  cross_section_area :: real
  strain_limit :: real

record geometry =
  net_span :: real
  num_strands :: real
  installation_angle :: real
  safety_factor_min :: real
  max_deflection_ratio :: real

record impact =
  mass :: real
  fall_height :: real
  impact_velocity :: real

record analysis =
  analysis_type :: string
  max_iterations :: real
  convergence_tolerance :: real
  include_damping :: bool
  damping_ratio :: real

record configuration =
  scenario_name :: string
  material :: material
  geometry :: geometry
  impact :: impact
  analysis :: analysis

text \<open>A JavaScript number that may be the sentinel \<^verbatim>\<open>Infinity\<close>.\<close>

datatype number = Fin real | Infinity

text \<open>\<^verbatim>\<open>x >= y\<close> for a possibly infinite \<open>x\<close> and a finite \<open>y\<close>.\<close>

fun number_ge :: "number \<Rightarrow> real \<Rightarrow> bool" where
  "number_ge Infinity y = True"
| "number_ge (Fin x) y = (y \<le> x)"

record structural_response =
  max_deflection :: real
  max_stress :: real
  safety_factor :: number
  strain :: real

record design_limits =
  max_deflection_limit :: real
  min_safety_factor :: real
  max_strain_limit :: real

record design_checks =
  deflection_ok :: bool
  stress_ok :: bool
  strain_ok :: bool
  overall_safe :: bool

record stiffness_coefficients =
  k1 :: real
  k2 :: real
  k3 :: real

text \<open>The object stored in \<^verbatim>\<open>this.results\<close> and returned by \<^verbatim>\<open>analyze\<close>; its field
  \<^verbatim>\<open>scenario_name\<close> is called \<open>result_scenario_name\<close> here.\<close>

record analysis_results =
  result_scenario_name :: string
  input_parameters :: configuration
  structural_response :: structural_response
  design_limits :: design_limits
  design_checks :: design_checks
  stiffness_coefficients :: stiffness_coefficients

text \<open>The fields of the object: \<^verbatim>\<open>this.config\<close>, \<^verbatim>\<open>this.g\<close>, \<^verbatim>\<open>this.results\<close>
  (\<open>None\<close> is the empty object \<^verbatim>\<open>{}\<close> before the first analysis).\<close>

record analyzer =
  config :: configuration
  g :: real
  results :: "analysis_results option"

datatype error = Error string

definition getDefaultConfig :: configuration where
  "getDefaultConfig =
     \<lparr> scenario_name = ''Custom Scenario'',
       material = \<lparr> name = ''Custom Material'',
                    elastic_modulus = 3500000000,
                    yield_strength = 80000000,
                    density = 1150,
                    cross_section_area = 2 / 1000000,
                    strain_limit = 0.1 \<rparr>,
       geometry = \<lparr> net_span = 4.0,
                    num_strands = 50,
                    installation_angle = 0.0,
                    safety_factor_min = 2.0,
                    max_deflection_ratio = 0.15 \<rparr>,
       impact = \<lparr> mass = 100.0,
                  fall_height = 3.0,
                  impact_velocity = sqrt (2 * 9.81 * 3.0) \<rparr>,
       analysis = \<lparr> analysis_type = ''impact'',
                    max_iterations = 100,
                    convergence_tolerance = 1 / 1000000,
                    include_damping = False,
                    damping_ratio = 0.05 \<rparr> \<rparr>"

text \<open>The constructor: \<^verbatim>\<open>config || this.getDefaultConfig()\<close>, \<^verbatim>\<open>g = 9.81\<close>, no results.\<close>

definition SafetyNetAnalyzer :: "configuration option \<Rightarrow> analyzer" where
  "SafetyNetAnalyzer c =
     \<lparr> config = (case c of Some cfg \<Rightarrow> cfg | None \<Rightarrow> getDefaultConfig),
       g = 9.81,
       results = None \<rparr>"

definition updateConfig :: "analyzer \<Rightarrow> configuration \<Rightarrow> analyzer" where
  "updateConfig a cfg = a\<lparr>config := cfg\<rparr>"

subsection \<open>Validation\<close>

text \<open>
  Each check is \<^verbatim>\<open>!x || x <= 0\<close>; on a number \<^verbatim>\<open>!x\<close> holds for zero. The messages are
  pushed in the order of the checks.
\<close>

definition validateConfig :: "analyzer \<Rightarrow> string list" where
  "validateConfig a =
     (let material = material (config a);
          geometry = geometry (config a);
          impact = impact (config a)
      in (if elastic_modulus material = 0 \<or> elastic_modulus material \<le> 0
          then [''Material elastic modulus must be positive''] else [])
       @ (if yield_strength material = 0 \<or> yield_strength material \<le> 0
          then [''Material yield strength must be positive''] else [])
       @ (if net_span geometry = 0 \<or> net_span geometry \<le> 0
          then [''Net span must be positive''] else [])
       @ (if num_strands geometry = 0 \<or> num_strands geometry \<le> 0
          then [''Number of strands must be positive''] else [])
       @ (if mass impact = 0 \<or> mass impact \<le> 0
          then [''Impact mass must be positive''] else [])
       @ (if fall_height impact = 0 \<or> fall_height impact \<le> 0
          then [''Fall height must be positive''] else []))"

text \<open>\<^verbatim>\<open>Array.prototype.join\<close> on a list of strings.\<close>

fun join :: "string \<Rightarrow> string list \<Rightarrow> string" where
  "join sep [] = []"
| "join sep [x] = x"
| "join sep (x # y # ys) = x @ sep @ join sep (y # ys)"

subsection \<open>Stiffness coefficients\<close>

text \<open>
  The private methods are called by \<^verbatim>\<open>analyze\<close> after validation only, so \<open>net_span\<close> is
  positive wherever they divide by it or by one of its powers.
\<close>

definition calculateStiffnessCoefficients :: "analyzer \<Rightarrow> stiffness_coefficients" where
  "calculateStiffnessCoefficients a =
     (let material = material (config a);
          geometry = geometry (config a);
          delta_est = 0.1 * net_span geometry;
          theta = arctan (delta_est / (net_span geometry / 2))
      in \<lparr> k1 = (num_strands geometry * elastic_modulus material * cross_section_area material /
                 net_span geometry) * ((cos theta)^2),
           k2 = (num_strands geometry * elastic_modulus material * cross_section_area material /
                 ((net_span geometry)^2)) * sin theta * ((cos theta)^2),
           k3 = (num_strands geometry * elastic_modulus material * cross_section_area material /
                 ((net_span geometry)^3)) * ((sin theta)^2) * ((cos theta)^2) \<rparr>)"

subsection \<open>Deflection solver\<close>

text \<open>The closure \<^verbatim>\<open>energyEquation\<close> of \<^verbatim>\<open>_calculateMaxDeflection\<close>. The parameters
  \<^verbatim>\<open>k1\<close>, \<^verbatim>\<open>k2\<close>, \<^verbatim>\<open>k3\<close> of the method are written \<open>c1\<close>, \<open>c2\<close>, \<open>c3\<close>: the names
  \<open>k1\<close>, \<open>k2\<close>, \<open>k3\<close> are the fields of the coefficient record.\<close>

definition energyEquation :: "analyzer \<Rightarrow> real \<Rightarrow> real \<Rightarrow> real \<Rightarrow> real \<Rightarrow> real" where
  "energyEquation a c1 c2 c3 delta =
     (0.5 * c1 * delta^2 +
      (1/3) * c2 * delta^3 +
      0.25 * c3 * delta^4 -
      mass (impact (config a)) * g a * fall_height (impact (config a)))"

definition tolerance :: real where
  "tolerance = 1 / 1000000"

definition maxIterations :: nat where
  "maxIterations = 100"

text \<open>
  The \<^verbatim>\<open>for\<close> loop, from iteration \<open>i\<close> with the bracket \<open>[left, right]\<close>: \<open>Some d\<close> when
  the loop returns \<open>d\<close>, \<open>None\<close> when it ends without returning.
\<close>

function bisection :: "(real \<Rightarrow> real) \<Rightarrow> nat \<Rightarrow> real \<Rightarrow> real \<Rightarrow> real option" where
  "bisection f i left right =
     (if i < maxIterations then
        (let mid = (left + right) / 2;
             f_mid = f mid
         in if \<bar>f_mid\<bar> < tolerance then Some (max 0 mid)
            else if f_mid > 0 then bisection f (i + 1) left mid
            else bisection f (i + 1) mid right)
      else None)"
  by pat_completeness auto
termination
  by (relation "measure (\<lambda>(f, i, left, right). maxIterations - i)") auto


text \<open>
  The fallback \<^verbatim>\<open>Math.min(m * g * h / k1, net_span * 0.5)\<close>. The energy \<open>m * g * h\<close> is
  positive after validation. For a divisor \<open>+0\<close> the quotient is \<^verbatim>\<open>Infinity\<close> in
  JavaScript and \<^verbatim>\<open>Math.min\<close> returns its other argument; this is the case \<open>c1 = 0\<close>
  below. For a divisor \<open>-0\<close> (a \<open>cross_section_area\<close> of \<open>-0\<close>) the source returns
  \<^verbatim>\<open>-Infinity\<close>, which the model has no value for: no lower bound is stated below for a
  cross-section area that is not positive.
\<close>

definition fallback :: "analyzer \<Rightarrow> real \<Rightarrow> real" where
  "fallback a c1 =
     (let impact = impact (config a);
          geometry = geometry (config a)
      in if c1 = 0 then net_span geometry * 0.5
         else min (mass impact * g a * fall_height impact / c1) (net_span geometry * 0.5))"

definition calculateMaxDeflection :: "analyzer \<Rightarrow> real \<Rightarrow> real \<Rightarrow> real \<Rightarrow> real" where
  "calculateMaxDeflection a c1 c2 c3 =
     (let geometry = geometry (config a);
          left = 0;
          right = net_span geometry * 0.5
      in case bisection (energyEquation a c1 c2 c3) 0 left right of
           Some d \<Rightarrow> d
         | None \<Rightarrow> fallback a c1)"

subsection \<open>Stress, safety factor, design checks\<close>

text \<open>
  Underflow of a double operation whose exact result is \<open>y\<close>: below the smallest normal
  double \<^verbatim>\<open>2^-1022\<close> the doubles are the multiples of \<^verbatim>\<open>2^-1074\<close>, and the result is
  rounded to the nearest of them, ties to the even multiple. A result in the normal range
  is kept exact.
\<close>

definition min_normal :: real where
  "min_normal = 1 / 2^1022"

definition min_subnormal :: real where
  "min_subnormal = 1 / 2^1074"

definition round_half_even :: "real \<Rightarrow> int" where
  "round_half_even y =
     (let n = \<lfloor>y\<rfloor>; d = y - of_int n
      in if d < 1/2 then n else if 1/2 < d then n + 1 else if even n then n else n + 1)"

definition underflow :: "real \<Rightarrow> real" where
  "underflow y =
     (if \<bar>y\<bar> < min_normal then of_int (round_half_even (y / min_subnormal)) * min_subnormal
      else y)"

text \<open>
  \<^verbatim>\<open>x**2\<close> in the strain formula. Only the underflow of the two squares is written out.
  The rounding of the sum, of the square root and of the quotient is not: where a small
  square is absorbed by a large one the source reports the strain \<open>0\<close> and the model a
  small positive strain. The statements below about the strain relate reported values
  and bound the strain from below by zero, which holds in either case.
\<close>

definition squared :: "real \<Rightarrow> real" where
  "squared x = underflow (x^2)"

definition calculateMaxStress :: "analyzer \<Rightarrow> real \<Rightarrow> real" where
  "calculateMaxStress a delta_max =
     (let material = material (config a);
          geometry = geometry (config a);
          strain = (sqrt (squared (net_span geometry) + squared delta_max) - net_span geometry) /
                   net_span geometry
      in elastic_modulus material * strain)"

text \<open>
  \<^verbatim>\<open>analyze\<close>: the error thrown on an invalid configuration is \<open>Inl\<close>; otherwise the
  returned results and the analyzer with \<^verbatim>\<open>this.results\<close> updated.
\<close>

definition analyze :: "analyzer \<Rightarrow> error + (analysis_results \<times> analyzer)" where
  "analyze a =
     (let errors = validateConfig a
      in if length errors > 0
         then Inl (Error (''Configuration errors: '' @ join '', '' errors))
         else
           (let material = material (config a);
                geometry = geometry (config a);
                impact = impact (config a);
                k = calculateStiffnessCoefficients a;
                delta_max = calculateMaxDeflection a (k1 k) (k2 k) (k3 k);
                sigma_max = calculateMaxStress a delta_max;
                safety_factor = (if sigma_max > 0 then Fin (yield_strength material / sigma_max)
                                 else Infinity);
                strain = (sqrt (squared (net_span geometry) + squared delta_max) -
                          net_span geometry) / net_span geometry;
                max_deflection_limit = max_deflection_ratio geometry * net_span geometry;
                design_checks =
                  \<lparr> deflection_ok = (delta_max \<le> max_deflection_limit),
                    stress_ok = number_ge safety_factor (safety_factor_min geometry),
                    strain_ok = (strain \<le> strain_limit material),
                    overall_safe = ((delta_max \<le> max_deflection_limit) \<and>
                                    number_ge safety_factor (safety_factor_min geometry) \<and>
                                    (strain \<le> strain_limit material)) \<rparr>;
                res =
                  \<lparr> result_scenario_name = scenario_name (config a),
                    input_parameters = config a,
                    structural_response =
                      \<lparr> max_deflection = delta_max,
                        max_stress = sigma_max,
                        safety_factor = safety_factor,
                        strain = strain \<rparr>,
                    design_limits =
                      \<lparr> max_deflection_limit = max_deflection_limit,
                        min_safety_factor = safety_factor_min geometry,
                        max_strain_limit = strain_limit material \<rparr>,
                    design_checks = design_checks,
                    stiffness_coefficients = k \<rparr>
            in Inr (res, a\<lparr>results := Some res\<rparr>)))"

text \<open>The value bound to \<^verbatim>\<open>delta_max\<close> in \<^verbatim>\<open>analyze\<close>.\<close>

abbreviation solved_deflection :: "analyzer \<Rightarrow> real" where
  "solved_deflection a \<equiv>
     calculateMaxDeflection a (k1 (calculateStiffnessCoefficients a))
       (k2 (calculateStiffnessCoefficients a)) (k3 (calculateStiffnessCoefficients a))"

subsection \<open>Example analyzers\<close>


text \<open>The default configuration on a net of span 1 m, with a fall from \<open>h\<close> metres.\<close>

definition short_span_analyzer :: "real \<Rightarrow> analyzer" where
  "short_span_analyzer h =
     SafetyNetAnalyzer (Some (getDefaultConfig
       \<lparr> geometry := (geometry getDefaultConfig) \<lparr> net_span := 1 \<rparr>,
         impact := (impact getDefaultConfig) \<lparr> fall_height := h \<rparr> \<rparr>))"



text \<open>The default configuration with \<open>mass = 0\<close> and \<open>net_span = -1\<close>.\<close>

definition invalid_analyzer :: analyzer where
  "invalid_analyzer =
     SafetyNetAnalyzer (Some (getDefaultConfig
       \<lparr> geometry := (geometry getDefaultConfig) \<lparr> net_span := - 1 \<rparr>,
         impact := (impact getDefaultConfig) \<lparr> mass := 0 \<rparr> \<rparr>))"

section \<open>Properties\<close>

subsection \<open>The bisection loop\<close>

declare bisection.simps [simp del]

lemma tolerance_pos: "0 < tolerance"
  by (simp add: tolerance_def)

lemma bisection_bracket:
  "left \<le> right \<Longrightarrow> 0 \<le> left \<Longrightarrow> bisection f i left right = Some d \<Longrightarrow>
     left \<le> d \<and> d \<le> right \<and> \<bar>f d\<bar> < tolerance"
proof (induction f i left right rule: bisection.induct)
  case (1 f i left right)
  let ?mid = "(left + right) / 2"
  have mid: "left \<le> ?mid" "?mid \<le> right" "0 \<le> ?mid"
    using "1.prems"(1,2) by simp_all
  have lt: "i < maxIterations"
    using "1.prems"(3) by (subst (asm) bisection.simps) (simp split: if_splits)
  show ?case
  proof (cases "\<bar>f ?mid\<bar> < tolerance")
    case True
    then have "d = max 0 ?mid"
      using lt "1.prems"(3) by (subst (asm) bisection.simps) (simp add: Let_def)
    then have d: "d = ?mid" using mid(3) by simp
    show ?thesis unfolding d using mid True by blast
  next
    case far: False
    show ?thesis
    proof (cases "f ?mid > 0")
      case True
      then have "bisection f (i + 1) left ?mid = Some d"
        using lt far "1.prems"(3) by (subst (asm) bisection.simps) (simp add: Let_def)
      then have "left \<le> d \<and> d \<le> ?mid \<and> \<bar>f d\<bar> < tolerance"
        using "1.IH"(1) [OF lt refl refl far True mid(1) "1.prems"(2)] by simp
      then show ?thesis using mid by simp
    next
      case False
      then have "bisection f (i + 1) ?mid right = Some d"
        using lt far "1.prems"(3) by (subst (asm) bisection.simps) (simp add: Let_def)
      then have "?mid \<le> d \<and> d \<le> right \<and> \<bar>f d\<bar> < tolerance"
        using "1.IH"(2) [OF lt refl refl far False mid(2) mid(3)] by simp
      then show ?thesis using mid by simp
    qed
  qed
qed

lemma bisection_None_below:
  "left \<le> right \<Longrightarrow> \<forall>x. left \<le> x \<and> x \<le> right \<longrightarrow> f x \<le> - tolerance \<Longrightarrow>
     bisection f i left right = None"
proof (induction f i left right rule: bisection.induct)
  case (1 f i left right)
  let ?mid = "(left + right) / 2"
  have mid: "left \<le> ?mid" "?mid \<le> right"
    using "1.prems"(1) by simp_all
  show ?case
  proof (cases "i < maxIterations")
    case False
    then show ?thesis by (subst bisection.simps) simp
  next
    case lt: True
    have below: "f ?mid \<le> - tolerance" using "1.prems"(2) mid by blast
    then have far: "\<not> \<bar>f ?mid\<bar> < tolerance" and neg: "\<not> f ?mid > 0"
      using tolerance_pos by linarith+
    have "\<forall>x. ?mid \<le> x \<and> x \<le> right \<longrightarrow> f x \<le> - tolerance"
      using "1.prems"(2) mid(1) by auto
    then have "bisection f (i + 1) ?mid right = None"
      using "1.IH"(2) [OF lt refl refl far neg mid(2)] by simp
    then show ?thesis
      using lt far neg by (subst bisection.simps) (simp add: Let_def)
  qed
qed

subsection \<open>Validation and stiffness coefficients in closed form\<close>

lemma validateConfig_Nil_iff:
  "validateConfig a = [] \<longleftrightarrow>
     0 < elastic_modulus (material (config a)) \<and> 0 < yield_strength (material (config a)) \<and>
     0 < net_span (geometry (config a)) \<and> 0 < num_strands (geometry (config a)) \<and>
     0 < mass (impact (config a)) \<and> 0 < fall_height (impact (config a))"
  by (auto simp add: validateConfig_def Let_def)

lemma theta_est: "L \<noteq> 0 \<Longrightarrow> 0.1 * L / (L / 2) = (1/5 :: real)"
  by simp

lemma cos_theta_sq: "(cos (arctan (1/5)))^2 = (25/26 :: real)"
  by (simp add: cos_arctan power_divide field_simps)

lemma sin_theta: "sin (arctan (1/5)) = (1 / sqrt 26 :: real)"
proof -
  have "sqrt (26/25 :: real) = sqrt 26 / 5"
    by (simp add: real_sqrt_divide)
  then show ?thesis
    by (simp add: sin_arctan power_divide field_simps)
qed

lemma sin_theta_sq: "(sin (arctan (1/5)))^2 = (1/26 :: real)"
  by (simp add: sin_theta power_divide)

lemma stiffness_closed_form:
  assumes "0 < net_span (geometry (config a))"
  shows "k1 (calculateStiffnessCoefficients a) =
           (num_strands (geometry (config a)) * elastic_modulus (material (config a)) *
            cross_section_area (material (config a)) / net_span (geometry (config a))) * (25/26)"
    and "k2 (calculateStiffnessCoefficients a) =
           (num_strands (geometry (config a)) * elastic_modulus (material (config a)) *
            cross_section_area (material (config a)) / (net_span (geometry (config a)))^2) *
           (1 / sqrt 26) * (25/26)"
    and "k3 (calculateStiffnessCoefficients a) =
           (num_strands (geometry (config a)) * elastic_modulus (material (config a)) *
            cross_section_area (material (config a)) / (net_span (geometry (config a)))^3) *
           (1/26) * (25/26)"
proof -
  have th: "0.1 * net_span (geometry (config a)) / (net_span (geometry (config a)) / 2) = 1/5"
    using assms by (intro theta_est) simp
  show "k1 (calculateStiffnessCoefficients a) =
           (num_strands (geometry (config a)) * elastic_modulus (material (config a)) *
            cross_section_area (material (config a)) / net_span (geometry (config a))) * (25/26)"
    unfolding calculateStiffnessCoefficients_def Let_def th
    by (simp only: stiffness_coefficients.simps cos_theta_sq)
  show "k2 (calculateStiffnessCoefficients a) =
           (num_strands (geometry (config a)) * elastic_modulus (material (config a)) *
            cross_section_area (material (config a)) / (net_span (geometry (config a)))^2) *
           (1 / sqrt 26) * (25/26)"
    unfolding calculateStiffnessCoefficients_def Let_def th
    by (simp only: stiffness_coefficients.simps cos_theta_sq sin_theta)
  show "k3 (calculateStiffnessCoefficients a) =
           (num_strands (geometry (config a)) * elastic_modulus (material (config a)) *
            cross_section_area (material (config a)) / (net_span (geometry (config a)))^3) *
           (1/26) * (25/26)"
    unfolding calculateStiffnessCoefficients_def Let_def th
    by (simp only: stiffness_coefficients.simps cos_theta_sq sin_theta_sq)
qed

subsection \<open>Bounds of the deflection\<close>

lemma analyze_valid:
  assumes "validateConfig a = []"
  shows "\<exists>r. analyze a = Inr (r, a\<lparr>results := Some r\<rparr>) \<and>
           max_deflection (structural_response r) = solved_deflection a \<and>
           max_stress (structural_response r) = calculateMaxStress a (solved_deflection a) \<and>
           safety_factor (structural_response r) =
             (if calculateMaxStress a (solved_deflection a) > 0
              then Fin (yield_strength (material (config a)) /
                        calculateMaxStress a (solved_deflection a))
              else Infinity) \<and>
           strain (structural_response r) =
             (sqrt (squared (net_span (geometry (config a))) + squared (solved_deflection a)) -
              net_span (geometry (config a))) / net_span (geometry (config a)) \<and>
           stiffness_coefficients r = calculateStiffnessCoefficients a"
  using assms by (simp add: analyze_def Let_def)

text \<open>The field \<open>g\<close> is set by the constructor and never assigned again.\<close>

lemma constructor_g: "g (SafetyNetAnalyzer c) = 9.81"
  by (simp add: SafetyNetAnalyzer_def)

lemma updateConfig_g: "g (updateConfig a cfg) = g a"
  by (simp add: updateConfig_def)

lemma analyze_keeps_config_and_g:
  "analyze a = Inr (r, a') \<Longrightarrow> config a' = config a \<and> g a' = g a"
  by (auto simp add: analyze_def Let_def split: if_splits)














subsection \<open>Stiffness coefficients\<close>




subsection \<open>Underflow of squares\<close>












subsection \<open>Runs with underflow\<close>









subsection \<open>Strain, stress, safety factor\<close>









subsection \<open>Rejection of invalid configurations\<close>

lemma join_sublist: "x \<in> set xs \<Longrightarrow> sublist x (join sep xs)"
proof (induction sep xs rule: join.induct)
  case (1 sep)
  then show ?case by simp
next
  case (2 sep y)
  then show ?case by simp
next
  case (3 sep y z zs)
  show ?case
  proof (cases "x = y")
    case True
    then show ?thesis by simp
  next
    case False
    then have "sublist x (join sep (z # zs))" using 3 by simp
    then obtain ps ss where "join sep (z # zs) = ps @ x @ ss"
      by (auto simp: sublist_def)
    then have "join sep (y # z # zs) = (y @ sep @ ps) @ x @ ss" by simp
    then show ?thesis unfolding sublist_def by blast
  qed
qed

lemma analyze_invalid:
  assumes "validateConfig a \<noteq> []"
  shows "analyze a = Inl (Error (''Configuration errors: '' @ join '', '' (validateConfig a)))"
  using assms by (simp add: analyze_def Let_def)

lemma message_carried:
  assumes "m \<in> set (validateConfig a)"
  shows "sublist m (''Configuration errors: '' @ join '', '' (validateConfig a))"
proof -
  from join_sublist [OF assms, of "'', ''"] obtain ps ss
    where "join '', '' (validateConfig a) = ps @ m @ ss"
    by (auto simp: sublist_def)
  then have "''Configuration errors: '' @ join '', '' (validateConfig a) =
             (''Configuration errors: '' @ ps) @ m @ ss" by simp
  then show ?thesis unfolding sublist_def by blast
qed

lemma validateConfig_members:
  "elastic_modulus (material (config a)) \<le> 0 \<Longrightarrow>
     ''Material elastic modulus must be positive'' \<in> set (validateConfig a)"
  "yield_strength (material (config a)) \<le> 0 \<Longrightarrow>
     ''Material yield strength must be positive'' \<in> set (validateConfig a)"
  "net_span (geometry (config a)) \<le> 0 \<Longrightarrow>
     ''Net span must be positive'' \<in> set (validateConfig a)"
  "num_strands (geometry (config a)) \<le> 0 \<Longrightarrow>
     ''Number of strands must be positive'' \<in> set (validateConfig a)"
  "mass (impact (config a)) \<le> 0 \<Longrightarrow>
     ''Impact mass must be positive'' \<in> set (validateConfig a)"
  "fall_height (impact (config a)) \<le> 0 \<Longrightarrow>
     ''Fall height must be positive'' \<in> set (validateConfig a)"
  by (simp_all add: validateConfig_def Let_def)

text \<open>
  Claim C8: for every configuration that violates at least one of the six checked
  positivity constraints, \<open>analyze\<close> computes nothing and raises an error whose message
  contains the message of every violated constraint. The witness is the configuration
  with \<open>mass = 0\<close> and \<open>net_span = -1\<close>, rejected with both messages.
\<close>

theorem analyze_rejects_all_violations:
  assumes "elastic_modulus (material (config a)) \<le> 0 \<or>
           yield_strength (material (config a)) \<le> 0 \<or>
           net_span (geometry (config a)) \<le> 0 \<or>
           num_strands (geometry (config a)) \<le> 0 \<or>
           mass (impact (config a)) \<le> 0 \<or>
           fall_height (impact (config a)) \<le> 0"
  shows "\<exists>msg. analyze a = Inl (Error msg) \<and>
           (elastic_modulus (material (config a)) \<le> 0 \<longrightarrow>
              sublist ''Material elastic modulus must be positive'' msg) \<and>
           (yield_strength (material (config a)) \<le> 0 \<longrightarrow>
              sublist ''Material yield strength must be positive'' msg) \<and>
           (net_span (geometry (config a)) \<le> 0 \<longrightarrow>
              sublist ''Net span must be positive'' msg) \<and>
           (num_strands (geometry (config a)) \<le> 0 \<longrightarrow>
              sublist ''Number of strands must be positive'' msg) \<and>
           (mass (impact (config a)) \<le> 0 \<longrightarrow>
              sublist ''Impact mass must be positive'' msg) \<and>
           (fall_height (impact (config a)) \<le> 0 \<longrightarrow>
              sublist ''Fall height must be positive'' msg)"
proof -
  let ?msg = "''Configuration errors: '' @ join '', '' (validateConfig a)"
  have "validateConfig a \<noteq> []"
    using assms unfolding validateConfig_Nil_iff by linarith
  then have "analyze a = Inl (Error ?msg)" by (rule analyze_invalid)
  moreover have "\<And>m. m \<in> set (validateConfig a) \<Longrightarrow> sublist m ?msg"
    by (rule message_carried)
  ultimately show ?thesis
    using validateConfig_members [of a] by (intro exI [of _ ?msg]) blast
qed

theorem analyze_rejects_all_violations_witness:
  "mass (impact (config invalid_analyzer)) = 0 \<and>
   net_span (geometry (config invalid_analyzer)) = - 1 \<and>
   analyze invalid_analyzer =
     Inl (Error ''Configuration errors: Net span must be positive, Impact mass must be positive'') \<and>
   (\<exists>msg. analyze invalid_analyzer = Inl (Error msg) \<and>
      sublist ''Net span must be positive'' msg \<and>
      sublist ''Impact mass must be positive'' msg)"
proof -
  have m: "mass (impact (config invalid_analyzer)) = 0"
    and L: "net_span (geometry (config invalid_analyzer)) = - 1"
    by (simp_all add: invalid_analyzer_def SafetyNetAnalyzer_def getDefaultConfig_def)
  have "validateConfig invalid_analyzer =
          [''Net span must be positive'', ''Impact mass must be positive'']"
    by (simp add: invalid_analyzer_def SafetyNetAnalyzer_def getDefaultConfig_def
        validateConfig_def)
  then have msg: "analyze invalid_analyzer =
     Inl (Error ''Configuration errors: Net span must be positive, Impact mass must be positive'')"
    by (simp add: analyze_def)
  have "\<exists>msg. analyze invalid_analyzer = Inl (Error msg) \<and>
      sublist ''Net span must be positive'' msg \<and>
      sublist ''Impact mass must be positive'' msg"
    using analyze_rejects_all_violations [of invalid_analyzer] m L by auto
  then show ?thesis using m L msg by blast
qed

subsection \<open>Determinism, and fields that are not read\<close>

lemma analyze_depends_on:
  assumes "material (config b) = material (config a)"
    and "geometry (config b) = geometry (config a)"
    and "impact (config b) = impact (config a)"
    and "g b = g a"
  shows "validateConfig b = validateConfig a"
    and "calculateStiffnessCoefficients b = calculateStiffnessCoefficients a"
    and "calculateMaxDeflection b = calculateMaxDeflection a"
    and "calculateMaxStress b = calculateMaxStress a"
proof -
  show "validateConfig b = validateConfig a"
    by (simp add: validateConfig_def Let_def assms)
  show "calculateStiffnessCoefficients b = calculateStiffnessCoefficients a"
    by (simp add: calculateStiffnessCoefficients_def Let_def assms)
  have "energyEquation b = energyEquation a"
    by (intro ext) (simp add: energyEquation_def assms)
  moreover have "fallback b = fallback a"
    by (intro ext) (simp add: fallback_def Let_def assms)
  ultimately show "calculateMaxDeflection b = calculateMaxDeflection a"
    by (intro ext) (simp add: calculateMaxDeflection_def Let_def assms split: option.splits)
  show "calculateMaxStress b = calculateMaxStress a"
    by (intro ext) (simp add: calculateMaxStress_def Let_def assms)
qed

lemma analyze_results_irrelevant: "analyze (a\<lparr>results := x\<rparr>) = analyze a"
proof -
  have deps: "validateConfig (a\<lparr>results := x\<rparr>) = validateConfig a"
    "calculateStiffnessCoefficients (a\<lparr>results := x\<rparr>) = calculateStiffnessCoefficients a"
    "calculateMaxDeflection (a\<lparr>results := x\<rparr>) = calculateMaxDeflection a"
    "calculateMaxStress (a\<lparr>results := x\<rparr>) = calculateMaxStress a"
    by (rule analyze_depends_on; simp)+
  show ?thesis
    unfolding analyze_def deps by (simp add: Let_def)
qed

text \<open>
  Claim C9: for every configuration that passes validation, \<open>analyze\<close> succeeds, and a
  second call on the analyzer it leaves behind (same configuration, \<^verbatim>\<open>this.results\<close> now
  set) returns the same results: the analysis reads the configuration and \<open>g\<close> only.
\<close>

theorem analyze_deterministic:
  assumes "validateConfig a = []"
  shows "\<exists>r a'. analyze a = Inr (r, a') \<and> analyze a' = Inr (r, a')"
proof -
  from analyze_valid [OF assms] obtain r where
    r: "analyze a = Inr (r, a\<lparr>results := Some r\<rparr>)" by blast
  have "analyze (a\<lparr>results := Some r\<rparr>) = Inr (r, a\<lparr>results := Some r\<rparr>)"
    unfolding analyze_results_irrelevant by (rule r)
  with r show ?thesis by blast
qed

theorem analyze_deterministic_witness:
  "validateConfig (SafetyNetAnalyzer None) = [] \<and>
   (\<exists>r a'. analyze (SafetyNetAnalyzer None) = Inr (r, a') \<and> analyze a' = Inr (r, a'))"
proof -
  have v: "validateConfig (SafetyNetAnalyzer None) = []"
    by (simp add: SafetyNetAnalyzer_def getDefaultConfig_def validateConfig_def)
  show ?thesis
    using v analyze_deterministic [OF v] by (rule conjI)
qed

text \<open>
  Claim C10: for every configuration that passes validation, changing
  \<open>analysis.max_iterations\<close> and \<open>analysis.convergence_tolerance\<close> to any values leaves the
  structural response (deflection, stress, safety factor, strain) and the design checks
  unchanged: the solver uses its own constants \<open>tolerance\<close> and \<open>maxIterations\<close>.
\<close>

theorem solver_settings_ignored:
  assumes "validateConfig a = []"
    and "b = a\<lparr>config := (config a)\<lparr>analysis := (analysis (config a))
               \<lparr>max_iterations := n, convergence_tolerance := t\<rparr>\<rparr>\<rparr>"
  shows "\<exists>ra a' rb b'. analyze a = Inr (ra, a') \<and> analyze b = Inr (rb, b') \<and>
           structural_response rb = structural_response ra \<and>
           design_checks rb = design_checks ra"
proof -
  have deps: "validateConfig b = validateConfig a"
    "calculateStiffnessCoefficients b = calculateStiffnessCoefficients a"
    "calculateMaxDeflection b = calculateMaxDeflection a"
    "calculateMaxStress b = calculateMaxStress a"
    by (rule analyze_depends_on; simp add: assms(2))+
  have fields: "material (config b) = material (config a)"
    "geometry (config b) = geometry (config a)"
    by (simp_all add: assms(2))
  have "map_sum id (\<lambda>p. (structural_response (fst p), design_checks (fst p))) (analyze b) =
        map_sum id (\<lambda>p. (structural_response (fst p), design_checks (fst p))) (analyze a)"
    unfolding analyze_def deps fields by (simp add: Let_def)
  moreover from analyze_valid [OF assms(1)] obtain ra where
    "analyze a = Inr (ra, a\<lparr>results := Some ra\<rparr>)" by blast
  moreover from analyze_valid [of b] assms(1) deps(1) obtain rb where
    "analyze b = Inr (rb, b\<lparr>results := Some rb\<rparr>)" by auto
  ultimately show ?thesis by auto
qed

theorem solver_settings_ignored_witness:
  "validateConfig (SafetyNetAnalyzer None) = [] \<and>
   (\<exists>ra a' rb b'.
      analyze (SafetyNetAnalyzer None) = Inr (ra, a') \<and>
      analyze ((SafetyNetAnalyzer None)\<lparr>config := (config (SafetyNetAnalyzer None))
                 \<lparr>analysis := (analysis (config (SafetyNetAnalyzer None)))
                     \<lparr>max_iterations := 5, convergence_tolerance := 1\<rparr>\<rparr>\<rparr>) = Inr (rb, b') \<and>
      structural_response rb = structural_response ra \<and>
      design_checks rb = design_checks ra)"
proof -
  have v: "validateConfig (SafetyNetAnalyzer None) = []"
    by (simp add: SafetyNetAnalyzer_def getDefaultConfig_def validateConfig_def)
  show ?thesis
    using v solver_settings_ignored [where n = 5 and t = 1, OF v refl] by (rule conjI)
qed

subsection \<open>The midpoints of the loop\<close>




subsection \<open>Outcome of the solver\<close>

text \<open>
  Two families of concrete runs on a net of span 1 m: a fall from 46 m or more, where
  the energy function is negative on the whole bracket and the loop runs out of
  iterations, and a fall from about 11.0838 m, where the first midpoint \<open>1/4\<close> already
  meets the tolerance.
\<close>

lemma inv_sqrt26_bounds: "0 < 1 / sqrt 26" "1 / sqrt 26 \<le> (1/5 :: real)"
proof -
  show "0 < 1 / sqrt 26" by simp
  have "sqrt 25 \<le> sqrt 26" by (rule real_sqrt_le_mono) simp
  moreover have "sqrt 25 = 5" using real_sqrt_abs [of 5] by simp
  ultimately have "5 \<le> sqrt 26" by simp
  then show "1 / sqrt 26 \<le> (1/5 :: real)" by (simp add: field_simps)
qed

lemma short_span_facts:
  assumes "0 < h"
  shows "validateConfig (short_span_analyzer h) = []"
    and "g (short_span_analyzer h) = 9.81"
    and "net_span (geometry (config (short_span_analyzer h))) = 1"
    and "mass (impact (config (short_span_analyzer h))) * g (short_span_analyzer h) *
         fall_height (impact (config (short_span_analyzer h))) = 981 * h"
    and "k1 (calculateStiffnessCoefficients (short_span_analyzer h)) = 4375000 / 13"
    and "k2 (calculateStiffnessCoefficients (short_span_analyzer h)) =
           4375000 / 13 * (1 / sqrt 26)"
    and "k3 (calculateStiffnessCoefficients (short_span_analyzer h)) = 4375000 / 338"
proof -
  have L: "0 < net_span (geometry (config (short_span_analyzer h)))"
    by (simp add: short_span_analyzer_def SafetyNetAnalyzer_def getDefaultConfig_def)
  show "validateConfig (short_span_analyzer h) = []"
    using assms
    by (simp add: short_span_analyzer_def SafetyNetAnalyzer_def getDefaultConfig_def
        validateConfig_def)
  show "g (short_span_analyzer h) = 9.81"
    by (simp add: short_span_analyzer_def SafetyNetAnalyzer_def)
  show "net_span (geometry (config (short_span_analyzer h))) = 1"
    by (simp add: short_span_analyzer_def SafetyNetAnalyzer_def getDefaultConfig_def)
  show "mass (impact (config (short_span_analyzer h))) * g (short_span_analyzer h) *
         fall_height (impact (config (short_span_analyzer h))) = 981 * h"
    by (simp add: short_span_analyzer_def SafetyNetAnalyzer_def getDefaultConfig_def)
  show "k1 (calculateStiffnessCoefficients (short_span_analyzer h)) = 4375000 / 13"
    unfolding stiffness_closed_form(1) [OF L]
    by (simp add: short_span_analyzer_def SafetyNetAnalyzer_def getDefaultConfig_def)
  show "k2 (calculateStiffnessCoefficients (short_span_analyzer h)) =
           4375000 / 13 * (1 / sqrt 26)"
    unfolding stiffness_closed_form(2) [OF L]
    by (simp add: short_span_analyzer_def SafetyNetAnalyzer_def getDefaultConfig_def)
  show "k3 (calculateStiffnessCoefficients (short_span_analyzer h)) = 4375000 / 338"
    unfolding stiffness_closed_form(3) [OF L]
    by (simp add: short_span_analyzer_def SafetyNetAnalyzer_def getDefaultConfig_def)
qed

text \<open>The energy function of \<open>short_span_analyzer h\<close>, with the coefficients in closed form.\<close>

lemma short_span_energy:
  assumes "0 < h"
  shows "energyEquation (short_span_analyzer h)
           (k1 (calculateStiffnessCoefficients (short_span_analyzer h)))
           (k2 (calculateStiffnessCoefficients (short_span_analyzer h)))
           (k3 (calculateStiffnessCoefficients (short_span_analyzer h))) x =
         2187500 / 13 * x^2 + 4375000 / 39 * (1 / sqrt 26) * x^3 + 4375000 / 1352 * x^4 - 981 * h"
  unfolding energyEquation_def short_span_facts(4-7) [OF assms] by simp

lemma short_span_energy_upper:
  assumes "0 < h" "0 \<le> x" "x \<le> 1/2"
  shows "energyEquation (short_span_analyzer h)
           (k1 (calculateStiffnessCoefficients (short_span_analyzer h)))
           (k2 (calculateStiffnessCoefficients (short_span_analyzer h)))
           (k3 (calculateStiffnessCoefficients (short_span_analyzer h))) x \<le> 45100 - 981 * h"
proof -
  have p2: "x^2 \<le> (1/2)^2" using assms(2,3) by (intro power_mono) simp_all
  have p3: "x^3 \<le> (1/2)^3" using assms(2,3) by (intro power_mono) simp_all
  have p4: "x^4 \<le> (1/2)^4" using assms(2,3) by (intro power_mono) simp_all
  have x3: "0 \<le> x^3" using assms(2) by simp
  have "(1 / sqrt 26) * x^3 \<le> (1/5) * x^3"
    using inv_sqrt26_bounds(2) x3 by (rule mult_right_mono)
  then have "(1 / sqrt 26) * x^3 \<le> (1/5) * (1/2)^3"
    using p3 by simp
  then have "2187500 / 13 * x^2 + 4375000 / 39 * ((1 / sqrt 26) * x^3) + 4375000 / 1352 * x^4
             \<le> 2187500 / 13 * (1/2)^2 + 4375000 / 39 * ((1/5) * (1/2)^3) + 4375000 / 1352 * (1/2)^4"
    using p2 p4 by (intro add_mono mult_left_mono) simp_all
  also have "\<dots> \<le> 45100" by (simp add: power_divide)
  finally show ?thesis
    unfolding short_span_energy [OF assms(1)] by (simp add: mult.assoc)
qed

lemma high_fall_exhausts:
  assumes "46 \<le> h"
  shows "bisection (energyEquation (short_span_analyzer h)
           (k1 (calculateStiffnessCoefficients (short_span_analyzer h)))
           (k2 (calculateStiffnessCoefficients (short_span_analyzer h)))
           (k3 (calculateStiffnessCoefficients (short_span_analyzer h)))) 0 0 (1/2) = None"
proof (rule bisection_None_below)
  show "(0::real) \<le> 1/2" by simp
  show "\<forall>x. 0 \<le> x \<and> x \<le> 1/2 \<longrightarrow>
          energyEquation (short_span_analyzer h)
           (k1 (calculateStiffnessCoefficients (short_span_analyzer h)))
           (k2 (calculateStiffnessCoefficients (short_span_analyzer h)))
           (k3 (calculateStiffnessCoefficients (short_span_analyzer h))) x \<le> - tolerance"
  proof (intro allI impI)
    fix x :: real assume x: "0 \<le> x \<and> x \<le> 1/2"
    have "0 < h" using assms by simp
    from short_span_energy_upper [OF this] x
    have "energyEquation (short_span_analyzer h)
           (k1 (calculateStiffnessCoefficients (short_span_analyzer h)))
           (k2 (calculateStiffnessCoefficients (short_span_analyzer h)))
           (k3 (calculateStiffnessCoefficients (short_span_analyzer h))) x \<le> 45100 - 981 * h"
      by simp
    also have "\<dots> \<le> - tolerance" using assms by (simp add: tolerance_def)
    finally show "energyEquation (short_span_analyzer h)
           (k1 (calculateStiffnessCoefficients (short_span_analyzer h)))
           (k2 (calculateStiffnessCoefficients (short_span_analyzer h)))
           (k3 (calculateStiffnessCoefficients (short_span_analyzer h))) x \<le> - tolerance" .
  qed
qed

lemma high_fall_deflection:
  assumes "46 \<le> h" "h \<le> 100"
  shows "solved_deflection (short_span_analyzer h) = 12753 * h / 4375000"
proof -
  have h: "0 < h" using assms by simp
  have "solved_deflection (short_span_analyzer h) =
        fallback (short_span_analyzer h) (k1 (calculateStiffnessCoefficients (short_span_analyzer h)))"
    using high_fall_exhausts [OF assms(1)]
    by (simp add: calculateMaxDeflection_def Let_def short_span_facts(3) [OF h])
  also have "\<dots> = min (981 * h / (4375000 / 13)) (1/2)"
    unfolding fallback_def Let_def short_span_facts(3,4,5) [OF h] by simp
  also have "\<dots> = 12753 * h / 4375000"
    using assms by (simp add: min_def)
  finally show ?thesis .
qed

lemma inv_sqrt26_tight:
  "1961161351 / 10000000000 < 1 / sqrt 26" "1 / sqrt 26 < (1961161352 / 10000000000 :: real)"
proof -
  have "sqrt 26 < 10000000000 / 1961161351"
    by (rule real_less_lsqrt) (simp_all add: power2_eq_square)
  then show "1961161351 / 10000000000 < 1 / sqrt 26"
    by (simp add: field_simps)
  have "(10000000000 / 1961161352 :: real) < sqrt 26"
    by (rule real_less_rsqrt) (simp add: power2_eq_square)
  then show "1 / sqrt 26 < (1961161352 / 10000000000 :: real)"
    by (simp add: field_simps)
qed

lemma tuned_fall_converges:
  assumes "11.083813029 \<le> h" "h \<le> 11.08381303"
  shows "bisection (energyEquation (short_span_analyzer h)
           (k1 (calculateStiffnessCoefficients (short_span_analyzer h)))
           (k2 (calculateStiffnessCoefficients (short_span_analyzer h)))
           (k3 (calculateStiffnessCoefficients (short_span_analyzer h)))) 0 0 (1/2) = Some (1/4)"
proof -
  let ?f = "energyEquation (short_span_analyzer h)
           (k1 (calculateStiffnessCoefficients (short_span_analyzer h)))
           (k2 (calculateStiffnessCoefficients (short_span_analyzer h)))
           (k3 (calculateStiffnessCoefficients (short_span_analyzer h)))"
  have h: "0 < h" using assms(1) by simp
  have f: "?f (1/4) = 2187500 / 208 + 4375000 / 2496 * (1 / sqrt 26) + 4375000 / 346112 - 981 * h"
    unfolding short_span_energy [OF h] by (simp add: power_divide)
  have "?f (1/4) < 2187500 / 208 + 4375000 / 2496 * (1961161352 / 10000000000) +
                    4375000 / 346112 - 981 * 11.083813029"
    unfolding f using inv_sqrt26_tight(2) assms(1) by simp
  also have "\<dots> < tolerance" by (simp add: tolerance_def)
  finally have up: "?f (1/4) < tolerance" .
  have "- tolerance < 2187500 / 208 + 4375000 / 2496 * (1961161351 / 10000000000) +
                    4375000 / 346112 - 981 * 11.08381303"
    by (simp add: tolerance_def)
  also have "\<dots> < ?f (1/4)"
    unfolding f using inv_sqrt26_tight(1) assms(2) by simp
  finally have "\<bar>?f (1/4)\<bar> < tolerance" using up by simp
  then show ?thesis
    by (subst bisection.simps) (simp add: maxIterations_def Let_def)
qed


text \<open>
  Claim C2, amended: for every configuration that passes validation (with \<open>g = 9.81\<close>),
  if the bisection loop returns, the reported deflection \<open>\<delta>\<close> satisfies
  \<open>\<bar>1/2 k1 \<delta>\<^sup>2 + 1/3 k2 \<delta>\<^sup>3 + 1/4 k3 \<delta>\<^sup>4 - m g h\<bar> < 1e-6\<close>; if the loop ends without
  returning, \<open>analyze\<close> reports the fallback estimate. The results carry no
  convergence flag: \<open>analysis_results\<close> has no such field.
\<close>

theorem energy_balance_or_fallback:
  assumes "validateConfig a = []" and "g a = 9.81"
  shows "\<exists>r a'. analyze a = Inr (r, a') \<and>
           (let k = stiffness_coefficients r;
                \<delta> = max_deflection (structural_response r);
                m = mass (impact (config a));
                h = fall_height (impact (config a));
                loop = bisection (energyEquation a (k1 k) (k2 k) (k3 k)) 0 0
                         (net_span (geometry (config a)) * 0.5)
            in (loop \<noteq> None \<longrightarrow>
                  \<bar>1/2 * k1 k * \<delta>^2 + 1/3 * k2 k * \<delta>^3 + 1/4 * k3 k * \<delta>^4 - m * 9.81 * h\<bar>
                    < 1 / 10^6) \<and>
               (loop = None \<longrightarrow> \<delta> = fallback a (k1 k)))"
proof -
  let ?k = "calculateStiffnessCoefficients a"
  let ?f = "energyEquation a (k1 ?k) (k2 ?k) (k3 ?k)"
  let ?L = "net_span (geometry (config a))"
  let ?loop = "bisection ?f 0 0 (?L * 0.5)"
  let ?\<delta> = "solved_deflection a"
  have L: "0 \<le> ?L * 0.5"
    using assms(1) by (simp add: validateConfig_Nil_iff)
  from analyze_valid [OF assms(1)] obtain r where
    r: "analyze a = Inr (r, a\<lparr>results := Some r\<rparr>)"
       "max_deflection (structural_response r) = ?\<delta>"
       "stiffness_coefficients r = ?k"
    by blast
  have conv: "\<bar>1/2 * k1 ?k * ?\<delta>^2 + 1/3 * k2 ?k * ?\<delta>^3 + 1/4 * k3 ?k * ?\<delta>^4 -
               mass (impact (config a)) * 9.81 * fall_height (impact (config a))\<bar> < 1 / 10^6"
    if "?loop \<noteq> None"
  proof -
    from that obtain d where d: "?loop = Some d" by blast
    then have "?\<delta> = d" by (simp add: calculateMaxDeflection_def Let_def)
    moreover have "\<bar>?f d\<bar> < tolerance"
      using bisection_bracket [OF L _ d] by simp
    ultimately have "\<bar>?f ?\<delta>\<bar> < tolerance" by simp
    then show ?thesis
      unfolding energyEquation_def tolerance_def assms(2) by simp
  qed
  have fb: "?\<delta> = fallback a (k1 ?k)" if "?loop = None"
    using that by (simp add: calculateMaxDeflection_def Let_def)
  have "(?loop \<noteq> None \<longrightarrow>
          \<bar>1/2 * k1 ?k * ?\<delta>^2 + 1/3 * k2 ?k * ?\<delta>^3 + 1/4 * k3 ?k * ?\<delta>^4 -
               mass (impact (config a)) * 9.81 * fall_height (impact (config a))\<bar> < 1 / 10^6) \<and>
        (?loop = None \<longrightarrow> ?\<delta> = fallback a (k1 ?k))"
    using conv fb by blast
  then have "analyze a = Inr (r, a\<lparr>results := Some r\<rparr>) \<and>
        (let k = stiffness_coefficients r;
                \<delta> = max_deflection (structural_response r);
                m = mass (impact (config a));
                h = fall_height (impact (config a));
                loop = bisection (energyEquation a (k1 k) (k2 k) (k3 k)) 0 0
                         (net_span (geometry (config a)) * 0.5)
            in (loop \<noteq> None \<longrightarrow>
                  \<bar>1/2 * k1 k * \<delta>^2 + 1/3 * k2 k * \<delta>^3 + 1/4 * k3 k * \<delta>^4 - m * 9.81 * h\<bar>
                    < 1 / 10^6) \<and>
               (loop = None \<longrightarrow> \<delta> = fallback a (k1 k)))"
    unfolding Let_def r(2,3) using r(1) by (rule conjI [rotated])
  then show ?thesis by (intro exI)
qed

theorem energy_balance_or_fallback_witness:
  "validateConfig (short_span_analyzer 11.083813029) = [] \<and>
   g (short_span_analyzer 11.083813029) = 9.81 \<and>
   (\<exists>r a'. analyze (short_span_analyzer 11.083813029) = Inr (r, a') \<and>
      bisection (energyEquation (short_span_analyzer 11.083813029)
                   (k1 (stiffness_coefficients r)) (k2 (stiffness_coefficients r))
                   (k3 (stiffness_coefficients r))) 0 0 (1/2) \<noteq> None \<and>
      \<bar>1/2 * k1 (stiffness_coefficients r) * (max_deflection (structural_response r))^2 +
       1/3 * k2 (stiffness_coefficients r) * (max_deflection (structural_response r))^3 +
       1/4 * k3 (stiffness_coefficients r) * (max_deflection (structural_response r))^4 -
       100 * 9.81 * 11.083813029\<bar> < 1 / 10^6)"
proof -
  let ?a = "short_span_analyzer 11.083813029"
  have h: "(0::real) < 11.083813029" by simp
  note facts = short_span_facts [OF h]
  have fields: "mass (impact (config ?a)) = 100" "fall_height (impact (config ?a)) = 11.083813029"
    by (simp_all add: short_span_analyzer_def SafetyNetAnalyzer_def getDefaultConfig_def)
  from energy_balance_or_fallback [OF facts(1,2)] obtain r a' where
    r: "analyze ?a = Inr (r, a')"
       "bisection (energyEquation ?a (k1 (stiffness_coefficients r)) (k2 (stiffness_coefficients r))
                   (k3 (stiffness_coefficients r))) 0 0 (1/2) \<noteq> None \<longrightarrow>
        \<bar>1/2 * k1 (stiffness_coefficients r) * (max_deflection (structural_response r))^2 +
         1/3 * k2 (stiffness_coefficients r) * (max_deflection (structural_response r))^3 +
         1/4 * k3 (stiffness_coefficients r) * (max_deflection (structural_response r))^4 -
         100 * 9.81 * 11.083813029\<bar> < 1 / 10^6"
    unfolding Let_def facts(3) fields by auto
  from analyze_valid [OF facts(1)] r(1)
  have k: "stiffness_coefficients r = calculateStiffnessCoefficients ?a" by auto
  have "bisection (energyEquation ?a (k1 (stiffness_coefficients r)) (k2 (stiffness_coefficients r))
                   (k3 (stiffness_coefficients r))) 0 0 (1/2) \<noteq> None"
    unfolding k using tuned_fall_converges [of "11.083813029"] by simp
  with r facts(1,2) show ?thesis by blast
qed

text \<open>
  Claim C2 as stated fails for a fall from 60 m on a net of span 1 m: the configuration
  passes validation, \<open>analyze\<close> succeeds, and the energy balance at the reported
  deflection is off by more than the tolerance.
\<close>

theorem energy_balance_or_fallback_counterexample:
  "validateConfig (short_span_analyzer 60) = [] \<and>
   g (short_span_analyzer 60) = 9.81 \<and>
   \<not> isl (analyze (short_span_analyzer 60)) \<and>
   \<not> \<bar>energyEquation (short_span_analyzer 60)
        (k1 (stiffness_coefficients (fst (projr (analyze (short_span_analyzer 60))))))
        (k2 (stiffness_coefficients (fst (projr (analyze (short_span_analyzer 60))))))
        (k3 (stiffness_coefficients (fst (projr (analyze (short_span_analyzer 60))))))
        (max_deflection (structural_response (fst (projr (analyze (short_span_analyzer 60))))))\<bar>
      < tolerance"
proof -
  let ?a = "short_span_analyzer 60"
  let ?k = "calculateStiffnessCoefficients ?a"
  have h: "(0::real) < 60" by simp
  note facts = short_span_facts [OF h]
  from analyze_valid [OF facts(1)] obtain r where
    r: "analyze ?a = Inr (r, ?a\<lparr>results := Some r\<rparr>)"
       "max_deflection (structural_response r) = solved_deflection ?a"
       "stiffness_coefficients r = ?k"
    by blast
  have d: "solved_deflection ?a = 38259 / 218750"
    using high_fall_deflection [of 60] by simp
  have "energyEquation ?a (k1 ?k) (k2 ?k) (k3 ?k) (38259 / 218750) \<le> 45100 - 981 * 60"
    by (rule short_span_energy_upper) simp_all
  then have "\<not> \<bar>energyEquation ?a (k1 ?k) (k2 ?k) (k3 ?k) (38259 / 218750)\<bar> < tolerance"
    by (simp add: tolerance_def)
  then show ?thesis
    using facts(1,2) by (simp add: r d)
qed




subsection \<open>Monotonicity in the fall height\<close>







end
